theory Spec2Isabelle
  imports Main "HOL-Library.Word"
begin

unbundle bit_operations_syntax

section \<open>Errors and machine types\<close>

text \<open>
  The errors of package \<open>rdb\<close> (\<open>ErrInvalidRDB\<close> ... \<open>ErrInvalidCompressedData\<close>), the two
  library errors the parser hands on unchanged (\<open>io.ErrUnexpectedEOF\<close> of the readers and
  the syntax error of \<open>strconv.Atoi\<close>), and the run-time panics of Go (an index or a slice
  bound out of range, \<open>make\<close> with a negative length), which end the program instead of
  returning an error value.
\<close>

datatype error =
    ErrInvalidRDB
  | ErrUnsupportedRDB
  | ErrInvalidZipmapEntry
  | ErrInvalidLengthEncoding
  | ErrInvalidCompressedData
  | ErrUnexpectedEOF
  | ErrSyntax
  | RuntimePanic

type_synonym byte = "8 word"
type_synonym uint64 = "64 word"

section \<open>The memory-cost model (type \<open>overhead\<close>)\<close>

text \<open>
  Go's \<open>sort.Search(n, f)\<close>: binary search over \<open>[0, n)\<close> for the least index where \<open>f\<close>
  holds; \<open>n\<close> when there is none. The loop of the library, \<open>h := int(uint(i+j) >> 1)\<close>.
\<close>

function Search_loop :: "(nat \<Rightarrow> bool) \<Rightarrow> nat \<Rightarrow> nat \<Rightarrow> nat" where
  "Search_loop f i j =
     (if i < j
      then (let h = (i + j) div 2
            in if \<not> f h then Search_loop f (h + 1) j else Search_loop f i h)
      else i)"
  by pat_completeness auto
termination
  by (relation "measure (\<lambda>(f, i, j). j - i)") auto

definition Search :: "nat \<Rightarrow> (nat \<Rightarrow> bool) \<Rightarrow> nat" where
  "Search n f = Search_loop f 0 n"

definition allocSpec :: "uint64 list" where
  "allocSpec = [
    8, 16, 24, 32, 40, 48, 56, 64, 80, 96, 112, 128, 160, 192, 224, 256, 320, 384, 448, 512, 640,
    768, 896, 1024, 1280, 1536, 1792, 2048, 2560, 3072, 3584, 4096, 5120, 6144, 7168, 8192, 10240,
    12288, 14336, 16384, 20480, 24576, 28672, 32768, 40960, 49152, 57344, 65536, 81920, 98304,
    114688, 131072, 163840, 196608, 229376, 262144, 327680, 393216, 458752, 524288, 655360, 786432,
    917504, 1048576, 1310720, 1572864, 1835008, 2097152, 2621440, 3145728, 3670016, 4194304,
    5242880, 6291456, 7340032, 8388608, 10485760, 12582912, 14680064, 16777216, 20971520, 25165824,
    29360128, 33554432, 41943040, 50331648, 58720256, 67108864, 83886080, 100663296, 117440512,
    134217728, 167772160, 201326592, 234881024, 268435456, 335544320, 402653184, 469762048,
    536870912, 671088640, 805306368, 939524096, 1073741824, 1342177280, 1610612736, 1879048192,
    2147483648, 2684354560, 3221225472, 3758096384, 4294967296, 5368709120, 6442450944, 7516192768,
    8589934592, 10737418240, 12884901888, 15032385536, 17179869184, 21474836480, 25769803776,
    30064771072, 34359738368, 42949672960, 51539607552, 60129542144, 68719476736, 85899345920,
    103079215104, 120259084288, 137438953472, 171798691840, 206158430208, 240518168576,
    274877906944, 343597383680, 412316860416, 481036337152, 549755813888, 687194767360,
    824633720832, 962072674304, 1099511627776, 1374389534720, 1649267441664, 1924145348608,
    2199023255552, 2748779069440, 3298534883328, 3848290697216, 4398046511104, 5497558138880,
    6597069766656, 7696581394432, 8796093022208, 10995116277760, 13194139533312, 15393162788864,
    17592186044416, 21990232555520, 26388279066624, 30786325577728, 35184372088832, 43980465111040,
    52776558133248, 61572651155456, 70368744177664, 87960930222080, 105553116266496,
    123145302310912, 140737488355328, 175921860444160, 211106232532992, 246290604621824,
    281474976710656, 351843720888320, 422212465065984, 492581209243648, 562949953421312,
    703687441776640, 844424930131968, 985162418487296, 1125899906842624, 1407374883553280,
    1688849860263936, 1970324836974592, 2251799813685248, 2814749767106560, 3377699720527872,
    3940649673949184, 4503599627370496, 5629499534213120, 6755399441055744, 7881299347898368,
    9007199254740992, 11258999068426240, 13510798882111488, 15762598695796736, 18014398509481984,
    22517998136852480, 27021597764222976, 31525197391593472, 36028797018963968, 45035996273704960,
    54043195528445952, 63050394783186944, 72057594037927936, 90071992547409920, 108086391056891904,
    126100789566373888, 144115188075855872, 180143985094819840, 216172782113783808,
    252201579132747776, 288230376151711744, 360287970189639680, 432345564227567616,
    504403158265495552, 576460752303423488, 720575940379279360, 864691128455135232,
    1008806316530991104, 1152921504606846976, 1441151880758558720, 1729382256910270464,
    2017612633061982208, 2305843009213693952, 2882303761517117440, 3458764513820540928,
    4035225266123964416, 4611686018427387904, 5764607523034234880, 6917529027641081856,
    8070450532247928832, 9223372036854775808, 11529215046068469760, 13835058055282163712,
    16140901064495857664]"

text \<open>
  \<open>uint64(size)\<close> of a Go \<open>int\<close>: the same 64 bits read as unsigned.
\<close>

definition uint64_of_int :: "int \<Rightarrow> uint64" where
  "uint64_of_int n = word_of_int n"

text \<open>
  \<open>overhead.jemalloc\<close>. The index expression \<open>allocSpec[i]\<close> panics when \<open>i\<close> is not below
  the length of the table.
\<close>

definition jemalloc :: "int \<Rightarrow> error + uint64" where
  "jemalloc sz =
     (let i = Search (length allocSpec) (\<lambda>i. allocSpec ! i \<ge> uint64_of_int sz)
      in if i > length allocSpec then Inr (uint64_of_int sz)
         else if i < length allocSpec then Inr (allocSpec ! i)
         else Inl RuntimePanic)"

section \<open>Sequencing of fallible steps\<close>

text \<open>
  Every Go function below returns \<open>(result, error)\<close>; a caller that sees an error returns it
  at once. \<open>bindE\<close> is that early return. A panic travels the same way.
\<close>

definition bindE :: "error + 'a \<Rightarrow> ('a \<Rightarrow> error + 'b) \<Rightarrow> error + 'b" where
  "bindE m f = (case m of Inl e \<Rightarrow> Inl e | Inr x \<Rightarrow> f x)"

section \<open>The byte source \<open>MemReader\<close>\<close>

text \<open>
  \<open>MemReader\<close> holds the bytes \<open>b\<close> and the cursor \<open>i\<close> (a Go \<open>int\<close>). \<open>Discard\<close> moves the
  cursor without any check. \<open>ReadByte\<close> and \<open>ReadBytes\<close> first evaluate the slice expression
  \<open>r.b[r.i:]\<close>, which panics unless \<open>0 \<le> i \<le> len(b)\<close>; \<open>ReadBytes\<close> with a negative count
  passes the length test and panics on \<open>r.b[r.i-n : r.i]\<close>.
\<close>

record MemReader =
  mr_i :: int
  mr_b :: "byte list"

definition NewReader :: "byte list \<Rightarrow> MemReader" where
  "NewReader bs = \<lparr>mr_i = 0, mr_b = bs\<rparr>"

definition Discard :: "int \<Rightarrow> MemReader \<Rightarrow> MemReader" where
  "Discard n r = r\<lparr>mr_i := mr_i r + n\<rparr>"

definition ReadByte :: "MemReader \<Rightarrow> error + (byte \<times> MemReader)" where
  "ReadByte r =
     (if mr_i r < 0 \<or> int (length (mr_b r)) < mr_i r then Inl RuntimePanic
      else if 1 > int (length (mr_b r)) - mr_i r then Inl ErrUnexpectedEOF
      else Inr (mr_b r ! nat (mr_i r), r\<lparr>mr_i := mr_i r + 1\<rparr>))"

definition ReadBytes :: "int \<Rightarrow> MemReader \<Rightarrow> error + (byte list \<times> MemReader)" where
  "ReadBytes n r =
     (if mr_i r < 0 \<or> int (length (mr_b r)) < mr_i r then Inl RuntimePanic
      else if n > int (length (mr_b r)) - mr_i r then Inl ErrUnexpectedEOF
      else if n < 0 then Inl RuntimePanic
      else Inr (take (nat n) (drop (nat (mr_i r)) (mr_b r)), r\<lparr>mr_i := mr_i r + n\<rparr>))"

text \<open>\<open>readString\<close>: the bytes of \<open>ReadBytes\<close> seen as a Go string (a byte sequence).\<close>

definition readString :: "int \<Rightarrow> MemReader \<Rightarrow> error + (byte list \<times> MemReader)" where
  "readString n r = ReadBytes n r"

text \<open>
  The number readers. \<open>le_uint\<close> and \<open>be_uint\<close> are \<open>binary.LittleEndian.UintN\<close> and
  \<open>binary.BigEndian.UintN\<close>; \<open>as_signed w\<close> is the conversion \<open>int(intW(...))\<close>.
\<close>

fun le_uint :: "byte list \<Rightarrow> int" where
  "le_uint [] = 0"
| "le_uint (x # xs) = uint x + 256 * le_uint xs"

definition be_uint :: "byte list \<Rightarrow> int" where
  "be_uint bs = le_uint (rev bs)"

definition as_signed :: "nat \<Rightarrow> int \<Rightarrow> int" where
  "as_signed w x = (if x \<ge> 2 ^ (w - 1) then x - 2 ^ w else x)"

definition little16 :: "MemReader \<Rightarrow> error + (int \<times> MemReader)" where
  "little16 r = bindE (ReadBytes 2 r) (\<lambda>(bs, r'). Inr (as_signed 16 (le_uint bs), r'))"

definition little32 :: "MemReader \<Rightarrow> error + (int \<times> MemReader)" where
  "little32 r = bindE (ReadBytes 4 r) (\<lambda>(bs, r'). Inr (as_signed 32 (le_uint bs), r'))"

definition little64 :: "MemReader \<Rightarrow> error + (int \<times> MemReader)" where
  "little64 r = bindE (ReadBytes 8 r) (\<lambda>(bs, r'). Inr (as_signed 64 (le_uint bs), r'))"

definition big32 :: "MemReader \<Rightarrow> error + (int \<times> MemReader)" where
  "big32 r = bindE (ReadBytes 4 r) (\<lambda>(bs, r'). Inr (as_signed 32 (be_uint bs), r'))"

definition big64 :: "MemReader \<Rightarrow> error + (int \<times> MemReader)" where
  "big64 r = bindE (ReadBytes 8 r) (\<lambda>(bs, r'). Inr (as_signed 64 (be_uint bs), r'))"

section \<open>LZF decompression (\<open>readLZF\<close>)\<close>

text \<open>
  The output array \<open>out\<close> has \<open>ulen\<close> zero bytes; \<open>make\<close> panics on a negative length. A
  literal run is one \<open>copy\<close>; a back-reference is copied byte by byte, so that it may overlap
  the bytes it writes.
\<close>

fun copy_into :: "byte list \<Rightarrow> nat \<Rightarrow> byte list \<Rightarrow> byte list" where
  "copy_into out p [] = out"
| "copy_into out p (x # xs) = copy_into (out[p := x]) (Suc p) xs"

fun copy_back :: "byte list \<Rightarrow> nat \<Rightarrow> nat \<Rightarrow> nat \<Rightarrow> byte list" where
  "copy_back out p ref 0 = out"
| "copy_back out p ref (Suc n) = copy_back (out[p := out ! ref]) (Suc p) (Suc ref) n"

text \<open>
  One round of the loop \<open>for ip < clen\<close>, from the control byte on: the new \<open>ip\<close>, \<open>op\<close>
  and \<open>out\<close>, or the error. Every index expression \<open>buf[ip]\<close> is guarded by Go's bounds check.
\<close>

definition lzf_ref :: "byte list \<Rightarrow> int \<Rightarrow> int \<Rightarrow> int \<Rightarrow> int \<Rightarrow> int \<Rightarrow> byte list
    \<Rightarrow> error + (int \<times> int \<times> byte list)" where
  "lzf_ref buf ulen len0 ref0 ip p out =
     (if int (length buf) \<le> ip then Inl RuntimePanic
      else
        let ref = ref0 - uint (buf ! nat ip);
            ip' = ip + 1;
            len = len0 + 2
        in if p + len > ulen \<or> ref < 0 then Inl ErrInvalidCompressedData
           else Inr (ip', p + len, copy_back out (nat p) (nat ref) (nat len)))"

definition lzf_round :: "byte list \<Rightarrow> int \<Rightarrow> int \<Rightarrow> int \<Rightarrow> int \<Rightarrow> byte list
    \<Rightarrow> error + (int \<times> int \<times> byte list)" where
  "lzf_round buf clen ulen ip0 p out =
     (if ip0 < 0 \<or> int (length buf) \<le> ip0 then Inl RuntimePanic
      else
        let ctrl = uint (buf ! nat ip0);
            ip = ip0 + 1
        in if ctrl < 32
           then (let c = ctrl + 1
                 in if c + ip > clen \<or> c + p > ulen then Inl ErrInvalidCompressedData
                    else Inr (ip + c, p + c,
                              copy_into out (nat p) (take (nat c) (drop (nat ip) buf))))
           else (let len = ctrl div 32;
                     ref = p - (ctrl mod 32) * 256 - 1
                 in if len = 7
                    then (if int (length buf) \<le> ip then Inl RuntimePanic
                          else let len' = len + uint (buf ! nat ip);
                                   ip' = ip + 1
                               in if ip' \<ge> clen then Inl ErrInvalidCompressedData
                                  else lzf_ref buf ulen len' ref ip' p out)
                    else lzf_ref buf ulen len ref ip p out))"

function lzf_loop :: "byte list \<Rightarrow> int \<Rightarrow> int \<Rightarrow> int \<Rightarrow> int \<Rightarrow> byte list \<Rightarrow> error + byte list" where
  "lzf_loop buf clen ulen ip p out =
     (if ip < clen
      then (case lzf_round buf clen ulen ip p out of
              Inl e \<Rightarrow> Inl e
            | Inr (ip', p', out') \<Rightarrow> lzf_loop buf clen ulen ip' p' out')
      else Inr (take (nat p) out))"
  by pat_completeness auto

lemma lzf_ref_advances:
  "lzf_ref buf ulen len0 ref0 ip p out = Inr (ip', p', out') \<Longrightarrow> ip < ip'"
  by (auto simp: lzf_ref_def Let_def split: if_splits)

lemma lzf_round_advances:
  "lzf_round buf clen ulen ip p out = Inr (ip', p', out') \<Longrightarrow> ip < ip'"
  by (auto simp: lzf_round_def Let_def add_pos_nonneg split: if_splits dest: lzf_ref_advances)

termination lzf_loop
  by (relation "measure (\<lambda>(buf, clen, ulen, ip, p, out). nat (clen - ip))")
     (auto dest: lzf_round_advances)

definition readLZF :: "byte list \<Rightarrow> int \<Rightarrow> int \<Rightarrow> error + byte list option" where
  "readLZF buf clen ulen =
     (if clen > int (length buf) then Inr None
      else if ulen < 0 then Inl RuntimePanic
      else bindE (lzf_loop buf clen ulen 0 0 (replicate (nat ulen) 0)) (\<lambda>bs. Inr (Some bs)))"

section \<open>The overheads of the memory report\<close>

definition arch :: uint64 where
  "arch = 8"

definition hashEntry :: uint64 where
  "hashEntry = 2 * arch + 8"

definition root :: uint64 where
  "root = arch + 8"

definition expiry :: "int \<Rightarrow> uint64" where
  "expiry e = (if e < 0 then 0 else hashEntry + 8)"

definition top_overhead :: "int \<Rightarrow> uint64" where
  "top_overhead e = hashEntry + root + expiry e"

text \<open>
  \<open>overhead.alloc\<close>. The sums \<open>l + 2 + \<dots>\<close> are taken in Go's \<open>int\<close> and handed to
  \<open>jemalloc\<close>, which converts to \<open>uint64\<close>.
\<close>

definition alloc :: "int \<Rightarrow> error + uint64" where
  "alloc l =
     (if l < 2 ^ 5 then jemalloc (l + 2)
      else if l < 2 ^ 8 then jemalloc (l + 2 + 2)
      else if l < 2 ^ 16 then jemalloc (l + 2 + 4)
      else if l < 2 ^ 32 then jemalloc (l + 2 + 8)
      else jemalloc (l + 2 + 16))"

text \<open>
  \<open>overhead.nextpow\<close>: \<open>power\<close> starts at 1 and doubles while \<open>power <= size\<close>. The sizes
  are lengths of slices, so the doubling never overflows 64 bits and \<open>power\<close> stays
  positive; the test \<open>0 < pw\<close> records that.
\<close>

function nextpow_loop :: "nat \<Rightarrow> nat \<Rightarrow> nat" where
  "nextpow_loop pw sz =
     (if pw \<le> sz \<and> 0 < pw then nextpow_loop (pw * 2) sz else pw)"
  by pat_completeness auto
termination
  by (relation "measure (\<lambda>(pw, sz). Suc sz - pw)") auto

definition nextpow :: "nat \<Rightarrow> nat" where
  "nextpow sz = nextpow_loop 1 sz"

text \<open>
  \<open>overhead.hash\<close>: \<open>uint64(float64(nextpow(size) * arch) * 1.5)\<close>. The product is a power
  of two, so the double holds it and one and a half times it exactly: the term is
  \<open>12 * nextpow(size)\<close>.
\<close>

definition hash_overhead :: "nat \<Rightarrow> uint64" where
  "hash_overhead sz = 4 + 7 * arch + 4 * arch + of_nat (nextpow sz * 12)"

definition quicklist_overhead :: "nat \<Rightarrow> uint64" where
  "quicklist_overhead sz =
     2 * arch + arch + 2 * 4 + (4 * arch + arch + 2 * 4) * of_nat sz"

definition linkedlist :: uint64 where
  "linkedlist = arch + 5 * arch"

definition linkedlistEntry :: uint64 where
  "linkedlistEntry = 3 * arch"

definition skiplist :: "nat \<Rightarrow> uint64" where
  "skiplist sz = 2 * arch + hash_overhead sz + 2 * arch + 16"

text \<open>
  \<open>overhead.skiplistEntry\<close> draws a random level (\<open>zsetRandomLevel\<close>, between 1 and 32);
  the level drawn is the argument here.
\<close>

definition skiplistEntry :: "uint64 \<Rightarrow> uint64" where
  "skiplistEntry level = hashEntry + 2 * arch + 8 + (arch + 8) * level"

section \<open>Decimal strings\<close>

text \<open>
  \<open>strconv.Itoa\<close> and \<open>strconv.AppendInt(buf, n, 10)\<close>: the decimal digits of a Go \<open>int\<close>,
  with a minus sign for a negative number.
\<close>

fun digits :: "nat \<Rightarrow> byte list" where
  "digits n = (if n < 10 then [48 + of_nat n] else digits (n div 10) @ [48 + of_nat (n mod 10)])"

definition Itoa :: "int \<Rightarrow> byte list" where
  "Itoa n = (if n < 0 then 45 # digits (nat (- n)) else digits (nat n))"

text \<open>
  The pattern \<open>isInt\<close>, \<open>^(?:[-+]?(?:0|[1-9][0-9]*))$\<close>: an optional sign, then either the
  single digit 0 or a digit from 1 to 9 followed by any digits.
\<close>

definition is_digit :: "byte \<Rightarrow> bool" where
  "is_digit c = (48 \<le> c \<and> c \<le> 57)"

definition unsigned_decimal :: "byte list \<Rightarrow> bool" where
  "unsigned_decimal bs =
     (case bs of
        [] \<Rightarrow> False
      | c # cs \<Rightarrow> if c = 48 then cs = [] else (49 \<le> c \<and> c \<le> 57 \<and> list_all is_digit cs))"

definition isInt :: "byte list \<Rightarrow> bool" where
  "isInt bs =
     (case bs of
        [] \<Rightarrow> False
      | c # cs \<Rightarrow> if c = 45 \<or> c = 43 then unsigned_decimal cs else unsigned_decimal bs)"

section \<open>Keys, values and work items\<close>

text \<open>
  The encodings of a record. \<open>Encoding2Type\<close> maps an encoding to the Redis type that
  decides the callback.
\<close>

definition EncodingString :: byte where "EncodingString = 0"
definition EncodingList :: byte where "EncodingList = 1"
definition EncodingSet :: byte where "EncodingSet = 2"
definition EncodingSortedSet :: byte where "EncodingSortedSet = 3"
definition EncodingHash :: byte where "EncodingHash = 4"
definition EncodingSortedSet2 :: byte where "EncodingSortedSet2 = 5"
definition EncodingZipmap :: byte where "EncodingZipmap = 9"
definition EncodingZiplist :: byte where "EncodingZiplist = 10"
definition EncodingIntset :: byte where "EncodingIntset = 11"
definition EncodingSortedSetZip :: byte where "EncodingSortedSetZip = 12"
definition EncodingHashZip :: byte where "EncodingHashZip = 13"
definition EncodingQuicklist :: byte where "EncodingQuicklist = 14"

lemmas Encoding_defs =
  EncodingString_def EncodingList_def EncodingSet_def EncodingSortedSet_def
  EncodingHash_def EncodingSortedSet2_def EncodingZipmap_def EncodingZiplist_def
  EncodingIntset_def EncodingSortedSetZip_def EncodingHashZip_def EncodingQuicklist_def

datatype rtype = TypeSet | TypeList | TypeHash | TypeString | TypeSortedSet | TypeUnknown

definition Encoding2Type :: "byte \<Rightarrow> rtype" where
  "Encoding2Type encoding =
     (if encoding = EncodingString then TypeString
      else if encoding = EncodingList \<or> encoding = EncodingZiplist \<or> encoding = EncodingQuicklist
        then TypeList
      else if encoding = EncodingSet \<or> encoding = EncodingIntset then TypeSet
      else if encoding = EncodingSortedSet \<or> encoding = EncodingSortedSet2
              \<or> encoding = EncodingSortedSetZip then TypeSortedSet
      else if encoding = EncodingHash \<or> encoding = EncodingZipmap \<or> encoding = EncodingHashZip
        then TypeHash
      else TypeUnknown)"

text \<open>
  A \<open>float64\<close> is its 64 bits (IEEE 754); \<open>math.NaN()\<close>, \<open>math.Inf(0)\<close> and \<open>math.Inf(-1)\<close>
  are the bit patterns of Go's \<open>math\<close> package.
\<close>

type_synonym float64 = "64 word"

definition NaN :: float64 where "NaN = 0x7FF8000000000001"
definition Inf_pos :: float64 where "Inf_pos = 0x7FF0000000000000"
definition Inf_neg :: float64 where "Inf_neg = 0xFFF0000000000000"

record Key =
  key_Encoding :: byte
  key_DB :: int
  key_Expiry :: int
  key_Key :: "byte list"
  key_memory :: uint64

text \<open>
  The struct \<open>value\<close>: compressed flag \<open>c\<close>, length \<open>l\<close>, memory \<open>m\<close>, score \<open>f\<close> and bytes
  \<open>b\<close> (\<open>None\<close> is Go's \<open>nil\<close>). Values come zeroed from the pool.
\<close>

record rvalue =
  v_c :: bool
  v_l :: int
  v_m :: uint64
  v_f :: float64
  v_b :: "byte list option"

definition newValue :: "bool \<Rightarrow> int \<Rightarrow> uint64 \<Rightarrow> byte list option \<Rightarrow> rvalue" where
  "newValue c l m b = \<lparr>v_c = c, v_l = l, v_m = m, v_f = 0, v_b = b\<rparr>"

definition newDoubleValue :: "float64 \<Rightarrow> rvalue" where
  "newDoubleValue f = \<lparr>v_c = False, v_l = 0, v_m = 8, v_f = f, v_b = None\<rparr>"

record redisType =
  rt_key :: Key
  rt_values :: "rvalue list"

text \<open>\<open>redisType.decompress\<close>: every compressed value is replaced by its LZF expansion.\<close>

definition decompress_value :: "rvalue \<Rightarrow> error + rvalue" where
  "decompress_value v =
     (if v_c v
      then (let buf = (case v_b v of None \<Rightarrow> [] | Some bs \<Rightarrow> bs)
            in bindE (readLZF buf (int (length buf)) (v_l v)) (\<lambda>b. Inr (v\<lparr>v_b := b\<rparr>)))
      else Inr v)"

fun decompress :: "rvalue list \<Rightarrow> error + rvalue list" where
  "decompress [] = Inr []"
| "decompress (v # vs) =
     bindE (decompress_value v) (\<lambda>v'. bindE (decompress vs) (\<lambda>vs'. Inr (v' # vs')))"

section \<open>The packed containers\<close>

subsection \<open>Intset\<close>

text \<open>
  One element of the loop of \<open>readIntset\<close>: the switch on the element width has no
  default case, so for a width other than 2, 4 and 8 nothing is read and \<open>values[j]\<close>
  keeps the zero \<open>make\<close> gave it.
\<close>

definition intset_element :: "int \<Rightarrow> MemReader \<Rightarrow> error + (int \<times> MemReader)" where
  "intset_element encoding r =
     (if encoding = 2 then little16 r
      else if encoding = 4 then little32 r
      else if encoding = 8 then little64 r
      else Inr (0, r))"

fun intset_loop :: "int \<Rightarrow> nat \<Rightarrow> MemReader \<Rightarrow> error + int list" where
  "intset_loop encoding 0 r = Inr []"
| "intset_loop encoding (Suc n) r =
     bindE (intset_element encoding r)
       (\<lambda>(x, r'). bindE (intset_loop encoding n r') (\<lambda>xs. Inr (x # xs)))"

definition readIntset :: "rvalue \<Rightarrow> error + int list option" where
  "readIntset v =
     (case v_b v of
        None \<Rightarrow> Inr None
      | Some bs \<Rightarrow>
          bindE (little32 (NewReader bs)) (\<lambda>(encoding, r1).
          bindE (little32 r1) (\<lambda>(lengthOfContents, r2).
            if lengthOfContents < 0 then Inl RuntimePanic
            else bindE (intset_loop encoding (nat lengthOfContents) r2)
                   (\<lambda>xs. Inr (Some xs)))))"

subsection \<open>Zipmap\<close>

definition zipmap_free :: "MemReader \<Rightarrow> error + MemReader" where
  "zipmap_free r =
     bindE (ReadByte r) (\<lambda>(n, r'). Inr (if n > 0 then Discard (uint n) r' else r'))"

definition readZipmapEntry :: "MemReader \<Rightarrow> bool \<Rightarrow> error + (byte list \<times> MemReader)" where
  "readZipmapEntry r0 val =
     bindE (ReadByte r0) (\<lambda>(b, r).
       if b < 254
       then (if val then bindE (zipmap_free r) (\<lambda>r'. readString (uint b) r')
             else readString (uint b) r)
       else if b = 254
       then bindE (little32 r) (\<lambda>(l, r1).
              if val then bindE (zipmap_free r1) (\<lambda>r'. readString l r')
              else readString l r1)
       else Inl ErrInvalidZipmapEntry)"

text \<open>
  The loop of \<open>readZipmap\<close>: a key, a value, then the test for the end byte 255 at the
  cursor. \<open>values\<close> is the slice the entries are appended to.
\<close>

function zipmap_loop :: "MemReader \<Rightarrow> byte list list \<Rightarrow> error + byte list list" where
  "zipmap_loop r vals =
     (case readZipmapEntry r False of
        Inl e \<Rightarrow> Inl e
      | Inr (k, r1) \<Rightarrow>
          (case readZipmapEntry r1 True of
             Inl e \<Rightarrow> Inl e
           | Inr (v, r2) \<Rightarrow>
               if mr_i r2 < int (length (mr_b r2))
               then (if mr_i r2 < 0 then Inl RuntimePanic
                     else if mr_b r2 ! nat (mr_i r2) = 255 then Inr (vals @ [k, v])
                     else zipmap_loop r2 (vals @ [k, v]))
               else zipmap_loop r2 (vals @ [k, v])))"
  by pat_completeness auto

text \<open>Every successful read moves the cursor forward inside the same bytes.\<close>

lemma ReadByte_advances:
  "ReadByte r = Inr (x, r') \<Longrightarrow>
     mr_b r' = mr_b r \<and> mr_i r' = mr_i r + 1 \<and> 0 \<le> mr_i r \<and> mr_i r < int (length (mr_b r))"
  by (auto simp: ReadByte_def split: if_splits)

lemma ReadBytes_advances:
  "ReadBytes n r = Inr (x, r') \<Longrightarrow>
     mr_b r' = mr_b r \<and> mr_i r' = mr_i r + n \<and> 0 \<le> n \<and> 0 \<le> mr_i r
     \<and> mr_i r' \<le> int (length (mr_b r))"
  by (auto simp: ReadBytes_def split: if_splits)

lemma ReadBytes_forward:
  "ReadBytes n r = Inr (x, r') \<Longrightarrow> mr_b r' = mr_b r \<and> mr_i r \<le> mr_i r'"
  by (auto simp: ReadBytes_def split: if_splits)

lemma little32_advances:
  "little32 r = Inr (x, r') \<Longrightarrow>
     mr_b r' = mr_b r \<and> mr_i r' = mr_i r + 4 \<and> 0 \<le> mr_i r
     \<and> mr_i r' \<le> int (length (mr_b r))"
  by (auto simp: little32_def bindE_def split: sum.splits dest: ReadBytes_advances)

lemma zipmap_free_advances:
  "zipmap_free r = Inr r' \<Longrightarrow> mr_b r' = mr_b r \<and> mr_i r < mr_i r'"
  by (auto simp: zipmap_free_def bindE_def Discard_def add_pos_nonneg
      split: sum.splits if_splits dest!: ReadByte_advances)

lemma readZipmapEntry_advances:
  "readZipmapEntry r val = Inr (x, r') \<Longrightarrow>
     mr_b r' = mr_b r \<and> mr_i r < mr_i r' \<and> mr_i r < int (length (mr_b r))"
  by (auto simp: readZipmapEntry_def readString_def bindE_def split: sum.splits if_splits
      dest!: ReadByte_advances ReadBytes_forward little32_advances zipmap_free_advances)

termination zipmap_loop
  by (relation "measure (\<lambda>(r, vals). nat (int (length (mr_b r)) - mr_i r))")
     (auto dest!: readZipmapEntry_advances)

text \<open>
  \<open>readZipmap\<close>. \<open>make([]string, zmlen*2)\<close> makes a slice of that LENGTH (the product is
  taken in the type \<open>byte\<close>), filled with empty strings; the loop appends after them.
\<close>

definition readZipmap :: "rvalue \<Rightarrow> error + byte list list option" where
  "readZipmap v =
     (case v_b v of
        None \<Rightarrow> Inr None
      | Some bs \<Rightarrow>
          bindE (ReadByte (NewReader bs)) (\<lambda>(zmlen, r).
            let vals = (if zmlen \<le> 254 then replicate (unat (zmlen * 2)) []
                        else replicate (512 * 2) [])
            in bindE (zipmap_loop r vals) (\<lambda>vs. Inr (Some vs))))"

subsection \<open>Ziplist\<close>

text \<open>
  The integer entries (\<open>first >> 6 == 3\<close>): the inner switch on \<open>(first >> 4) & 3\<close>, then,
  by \<open>fallthrough\<close>, the switch on the whole byte. \<open>s\<close> is \<open>values[j]\<close>, empty at first.
\<close>

definition ziplist_int :: "byte \<Rightarrow> MemReader \<Rightarrow> error + (byte list \<times> MemReader)" where
  "ziplist_int first r0 =
     bindE (let k = drop_bit 4 first AND 3
            in if k = 0 then bindE (little16 r0) (\<lambda>(n, r). Inr (Itoa n, r))
               else if k = 1 then bindE (little32 r0) (\<lambda>(n, r). Inr (Itoa n, r))
               else if k = 2 then bindE (little64 r0) (\<lambda>(n, r). Inr (Itoa n, r))
               else Inr ([], r0))
       (\<lambda>(s, r).
          if first = 240
          then bindE (ReadBytes 3 r) (\<lambda>(bs, r'). Inr (Itoa (as_signed 24 (le_uint bs)), r'))
          else if first = 254 then bindE (ReadByte r) (\<lambda>(b, r'). Inr (Itoa (sint b), r'))
          else if 241 \<le> first \<and> first \<le> 253 then Inr (Itoa (uint first - 241), r)
          else Inr (s, r))"

definition ziplist_entry :: "MemReader \<Rightarrow> error + (byte list \<times> MemReader)" where
  "ziplist_entry r0 =
     bindE (ReadByte r0) (\<lambda>(b, r1).
       let r2 = (if b = 0xfe then Discard 4 r1 else r1)
       in bindE (ReadByte r2) (\<lambda>(first, r).
            let t = drop_bit 6 first
            in if t = 0 then readString (uint (first AND 0x3f)) r
               else if t = 1
               then bindE (ReadByte r) (\<lambda>(second, r').
                      readString (uint second OR push_bit 8 (uint (first AND 0x3f))) r')
               else if t = 2 then bindE (big32 r) (\<lambda>(l, r'). readString l r')
               else ziplist_int first r))"

fun ziplist_loop :: "nat \<Rightarrow> MemReader \<Rightarrow> error + byte list list" where
  "ziplist_loop 0 r = Inr []"
| "ziplist_loop (Suc n) r =
     bindE (ziplist_entry r) (\<lambda>(s, r'). bindE (ziplist_loop n r') (\<lambda>ss. Inr (s # ss)))"

definition readZiplist :: "rvalue \<Rightarrow> error + byte list list option" where
  "readZiplist v =
     (case v_b v of
        None \<Rightarrow> Inr None
      | Some bs \<Rightarrow>
          bindE (little16 (Discard 4 (Discard 4 (NewReader bs)))) (\<lambda>(zllen, r).
            if zllen < 0 then Inl RuntimePanic
            else bindE (ziplist_loop (nat zllen) r) (\<lambda>ss. Inr (Some ss))))"

section \<open>The decode workers\<close>

text \<open>
  The five value records handed to the filter. A member of a set is a string or an
  integer (\<open>map[interface{}]struct{}\<close>); a hash and a sorted set are Go maps.
\<close>

datatype elem = EString "byte list" | EInt int

record rdb_Set =
  set_Key :: Key
  set_Values :: "elem set"
  set_memory :: uint64

record rdb_List =
  list_Key :: Key
  list_Values :: "byte list list"
  list_memory :: uint64

record rdb_Hash =
  hash_Key :: Key
  hash_Values :: "byte list \<rightharpoonup> byte list"
  hash_memory :: uint64

record rdb_String =
  string_Key :: Key
  string_Value :: "byte list"
  string_memory :: uint64

record rdb_SortedSet =
  zset_Key :: Key
  zset_Values :: "byte list \<rightharpoonup> float64"
  zset_memory :: uint64

text \<open>
  The index expression \<open>rt.values[0]\<close>, and a \<open>nil\<close> slice read as an empty one.
\<close>

definition first_value :: "redisType \<Rightarrow> error + rvalue" where
  "first_value rt = (case rt_values rt of [] \<Rightarrow> Inl RuntimePanic | v # _ \<Rightarrow> Inr v)"

definition or_nil :: "'a list option \<Rightarrow> 'a list" where
  "or_nil xs = (case xs of None \<Rightarrow> [] | Some ys \<Rightarrow> ys)"

subsection \<open>\<open>redisType.set\<close>\<close>

definition set_member :: "rdb_Set \<Rightarrow> rvalue \<Rightarrow> rdb_Set" where
  "set_member st v =
     st\<lparr>set_memory := set_memory st + (v_m v + hashEntry + root),
        set_Values := (case v_b v of None \<Rightarrow> set_Values st
                       | Some b \<Rightarrow> insert (EString b) (set_Values st))\<rparr>"

definition rt_set :: "redisType \<Rightarrow> error + rdb_Set" where
  "rt_set rt =
     (let st = \<lparr>set_Key = rt_key rt, set_Values = {}, set_memory = 0\<rparr>
      in if key_Encoding (rt_key rt) = EncodingSet
         then Inr (foldl set_member
                     (st\<lparr>set_memory := hash_overhead (length (rt_values rt))\<rparr>)
                     (rt_values rt))
         else if key_Encoding (rt_key rt) = EncodingIntset
         then bindE (first_value rt) (\<lambda>v.
              bindE (readIntset v) (\<lambda>inset.
                Inr (st\<lparr>set_memory := of_int (v_l v),
                        set_Values := EInt ` set (or_nil inset)\<rparr>)))
         else Inr st)"

subsection \<open>\<open>redisType.hash\<close>\<close>

text \<open>
  The loop \<open>for i := 0; i < len(values); i += 2 { m[values[i]] = values[i+1] }\<close>: an odd
  length makes \<open>values[i+1]\<close> panic.
\<close>

fun put_pairs :: "byte list list \<Rightarrow> (byte list \<rightharpoonup> byte list)
    \<Rightarrow> error + (byte list \<rightharpoonup> byte list)" where
  "put_pairs [] m = Inr m"
| "put_pairs [k] m = Inl RuntimePanic"
| "put_pairs (k # v # rest) m = put_pairs rest (m(k \<mapsto> v))"

fun hash_members :: "rvalue list \<Rightarrow> rdb_Hash \<Rightarrow> error + rdb_Hash" where
  "hash_members [] h = Inr h"
| "hash_members [k] h = Inl RuntimePanic"
| "hash_members (k # v # rest) h =
     hash_members rest
       (h\<lparr>hash_memory := hash_memory h + (v_m k + v_m v + hashEntry + 2 * root),
          hash_Values := (case (v_b k, v_b v) of
                            (Some kb, Some vb) \<Rightarrow> (hash_Values h)(kb \<mapsto> vb)
                          | _ \<Rightarrow> hash_Values h)\<rparr>)"

definition rt_hash :: "redisType \<Rightarrow> error + rdb_Hash" where
  "rt_hash rt =
     (let h = \<lparr>hash_Key = rt_key rt, hash_Values = Map.empty, hash_memory = 0\<rparr>
      in if key_Encoding (rt_key rt) = EncodingHashZip
         then bindE (first_value rt) (\<lambda>v.
              bindE (readZiplist v) (\<lambda>vals.
              bindE (put_pairs (or_nil vals) Map.empty) (\<lambda>m.
                Inr (h\<lparr>hash_memory := of_int (v_l v), hash_Values := m\<rparr>))))
         else if key_Encoding (rt_key rt) = EncodingZipmap
         then bindE (first_value rt) (\<lambda>v.
              bindE (readZipmap v) (\<lambda>vals.
              bindE (put_pairs (or_nil vals) Map.empty) (\<lambda>m.
                Inr (h\<lparr>hash_memory := of_int (v_l v), hash_Values := m\<rparr>))))
         else if key_Encoding (rt_key rt) = EncodingHash
         then hash_members (rt_values rt)
                (h\<lparr>hash_memory := hash_overhead (length (rt_values rt) div 2)\<rparr>)
         else Inr h)"

subsection \<open>\<open>redisType.string\<close> and \<open>redisType.list\<close>\<close>

text \<open>
  Each worker keeps one record per type and fills it again for every item. \<open>string\<close>
  leaves \<open>Value\<close> as it was when the bytes are \<open>nil\<close>, and the quicklist case of \<open>list\<close>
  appends to the \<open>Values\<close> it finds; so both take the record of the previous item.
\<close>

definition rt_string :: "redisType \<Rightarrow> rdb_String \<Rightarrow> error + rdb_String" where
  "rt_string rt old =
     bindE (first_value rt) (\<lambda>v.
       Inr \<lparr>string_Key = rt_key rt,
            string_Value = (case v_b v of None \<Rightarrow> string_Value old | Some b \<Rightarrow> b),
            string_memory = v_m v\<rparr>)"

definition list_member :: "rdb_List \<Rightarrow> rvalue \<Rightarrow> rdb_List" where
  "list_member l v =
     l\<lparr>list_memory := list_memory l + (v_m v + linkedlistEntry + root),
       list_Values := list_Values l @ [or_nil (v_b v)]\<rparr>"

fun quicklist_members :: "rvalue list \<Rightarrow> rdb_List \<Rightarrow> error + rdb_List" where
  "quicklist_members [] l = Inr l"
| "quicklist_members (v # vs) l =
     bindE (readZiplist v) (\<lambda>vals.
       quicklist_members vs
         (l\<lparr>list_memory := list_memory l + of_int (v_l v),
            list_Values := list_Values l @ or_nil vals\<rparr>))"

definition rt_list :: "redisType \<Rightarrow> rdb_List \<Rightarrow> error + rdb_List" where
  "rt_list rt old =
     (let l = old\<lparr>list_Key := rt_key rt, list_memory := 0\<rparr>
      in if key_Encoding (rt_key rt) = EncodingList
         then Inr (foldl list_member (l\<lparr>list_Values := [], list_memory := linkedlist\<rparr>)
                     (rt_values rt))
         else if key_Encoding (rt_key rt) = EncodingZiplist
         then bindE (first_value rt) (\<lambda>v.
              bindE (readZiplist v) (\<lambda>vals.
                Inr (l\<lparr>list_memory := of_int (v_l v), list_Values := or_nil vals\<rparr>)))
         else if key_Encoding (rt_key rt) = EncodingQuicklist
         then quicklist_members (rt_values rt)
                (l\<lparr>list_memory := quicklist_overhead (length (rt_values rt))\<rparr>)
         else Inr l)"

subsection \<open>\<open>redisType.sortedset\<close>\<close>

text \<open>
  Two library results are arguments: \<open>level j\<close> is the level \<open>zsetRandomLevel\<close> draws for
  the \<open>j\<close>-th member, and \<open>ParseFloat s\<close> is \<open>strconv.ParseFloat(s, 64)\<close> (\<open>None\<close> for its
  error, which the worker reports as a syntax error).
\<close>

fun zset_members :: "(nat \<Rightarrow> uint64) \<Rightarrow> nat \<Rightarrow> rvalue list \<Rightarrow> rdb_SortedSet
    \<Rightarrow> error + rdb_SortedSet" where
  "zset_members level j [] z = Inr z"
| "zset_members level j [k] z =
     (case v_b k of
        None \<Rightarrow> Inr (z\<lparr>zset_memory := zset_memory z
                        + (v_m k + 8 + root + skiplistEntry (level j))\<rparr>)
      | Some kb \<Rightarrow> Inl RuntimePanic)"
| "zset_members level j (k # v # rest) z =
     zset_members level (Suc j) rest
       (z\<lparr>zset_memory := zset_memory z + (v_m k + 8 + root + skiplistEntry (level j)),
          zset_Values := (case v_b k of None \<Rightarrow> zset_Values z
                          | Some kb \<Rightarrow> (zset_Values z)(kb \<mapsto> v_f v))\<rparr>)"

fun zset_pairs :: "(byte list \<Rightarrow> float64 option) \<Rightarrow> byte list list
    \<Rightarrow> (byte list \<rightharpoonup> float64) \<Rightarrow> error + (byte list \<rightharpoonup> float64)" where
  "zset_pairs ParseFloat [] m = Inr m"
| "zset_pairs ParseFloat [k] m = Inl RuntimePanic"
| "zset_pairs ParseFloat (k # v # rest) m =
     (case ParseFloat v of
        None \<Rightarrow> Inl ErrSyntax
      | Some f \<Rightarrow> zset_pairs ParseFloat rest (m(k \<mapsto> f)))"

definition rt_sortedset :: "(byte list \<Rightarrow> float64 option) \<Rightarrow> (nat \<Rightarrow> uint64) \<Rightarrow> redisType
    \<Rightarrow> error + rdb_SortedSet" where
  "rt_sortedset ParseFloat level rt =
     (let z = \<lparr>zset_Key = rt_key rt, zset_Values = Map.empty, zset_memory = 0\<rparr>
      in if key_Encoding (rt_key rt) = EncodingSortedSet
            \<or> key_Encoding (rt_key rt) = EncodingSortedSet2
         then zset_members level 0 (rt_values rt)
                (z\<lparr>zset_memory := skiplist (length (rt_values rt) div 2)\<rparr>)
         else if key_Encoding (rt_key rt) = EncodingSortedSetZip
         then bindE (first_value rt) (\<lambda>v.
              bindE (readZiplist v) (\<lambda>vals.
              bindE (zset_pairs ParseFloat (or_nil vals) Map.empty) (\<lambda>m.
                Inr (z\<lparr>zset_memory := of_int (v_l v), zset_Values := m\<rparr>))))
         else Inr z)"

subsection \<open>One round of \<open>filterWorker\<close>\<close>

text \<open>
  The callback a worker makes for one work item, with the record it passes. The
  worker's records of the previous round are its state.
\<close>

datatype callback =
    CbSet rdb_Set
  | CbList rdb_List
  | CbHash rdb_Hash
  | CbString rdb_String
  | CbSortedSet rdb_SortedSet

record worker =
  w_list :: rdb_List
  w_sds :: rdb_String

definition zero_Key :: Key where
  "zero_Key = \<lparr>key_Encoding = 0, key_DB = 0, key_Expiry = 0, key_Key = [], key_memory = 0\<rparr>"

definition new_worker :: worker where
  "new_worker =
     \<lparr>w_list = \<lparr>list_Key = zero_Key, list_Values = [], list_memory = 0\<rparr>,
      w_sds = \<lparr>string_Key = zero_Key, string_Value = [], string_memory = 0\<rparr>\<rparr>"

definition filterWorker_item :: "(byte list \<Rightarrow> float64 option) \<Rightarrow> (nat \<Rightarrow> uint64) \<Rightarrow> worker
    \<Rightarrow> redisType \<Rightarrow> error + (callback option \<times> worker)" where
  "filterWorker_item ParseFloat level w rt0 =
     bindE (decompress (rt_values rt0)) (\<lambda>vs.
       let rt = rt0\<lparr>rt_values := vs\<rparr>
       in case Encoding2Type (key_Encoding (rt_key rt)) of
            TypeSet \<Rightarrow> bindE (rt_set rt) (\<lambda>x. Inr (Some (CbSet x), w))
          | TypeList \<Rightarrow>
              bindE (rt_list rt (w_list w)) (\<lambda>x. Inr (Some (CbList x), w\<lparr>w_list := x\<rparr>))
          | TypeHash \<Rightarrow> bindE (rt_hash rt) (\<lambda>x. Inr (Some (CbHash x), w))
          | TypeString \<Rightarrow>
              bindE (rt_string rt (w_sds w)) (\<lambda>x. Inr (Some (CbString x), w\<lparr>w_sds := x\<rparr>))
          | TypeSortedSet \<Rightarrow>
              bindE (rt_sortedset ParseFloat level rt) (\<lambda>x. Inr (Some (CbSortedSet x), w))
          | TypeUnknown \<Rightarrow> Inr (None, w))"

section \<open>The stream driver (\<open>Parser\<close>)\<close>

subsection \<open>The filter, seen from the driver\<close>

text \<open>
  The driver asks the filter three questions: \<open>Database\<close>, \<open>Type\<close> and \<open>Key\<close>. Each answer
  is the boolean the callback returns, together with the strategy of the last \<open>Skip\<close> the
  callback made on its argument, if it made one. A filter is user code with a state of
  its own, which the callbacks of the workers change as well; from the driver it is a
  function of what has happened so far (the events) and of the question.

  The events are the questions asked, with their answers, and the work items handed to
  \<open>filterRedisType\<close> for the workers.
\<close>

datatype question = AskDatabase int | AskType byte | AskKey Key

datatype event = Called question bool "int option" | Submitted redisType

type_synonym filter = "event list \<Rightarrow> question \<Rightarrow> bool \<times> int option"

definition SkipMeta :: int where "SkipMeta = 1"
definition SkipExpiry :: int where "SkipExpiry = 2"
definition SkipValue :: int where "SkipValue = 4"
definition SkipAll :: int where "SkipAll = 8"

lemmas Skip_defs = SkipMeta_def SkipExpiry_def SkipValue_def SkipAll_def

definition tokenAUX :: byte where "tokenAUX = 0xFA"
definition tokenResize :: byte where "tokenResize = 0xFB"
definition tokenExpMSec :: byte where "tokenExpMSec = 0xFC"
definition tokenExpSec :: byte where "tokenExpSec = 0xFD"
definition tokenDB :: byte where "tokenDB = 0xFE"
definition tokenEOF :: byte where "tokenEOF = 0xFF"

lemmas token_defs =
  tokenAUX_def tokenResize_def tokenExpMSec_def tokenExpSec_def tokenDB_def tokenEOF_def

text \<open>
  The parser: its reader (here the \<open>MemReader\<close>), the filter (\<open>None\<close> is \<open>nil\<close>), the
  transient \<open>state\<close>, the \<open>strategy\<close>, whether \<open>EnableSync\<close> made the \<open>sync\<close> channel, and
  \<open>sizeint\<close>.
\<close>

record Parser =
  p_Reader :: MemReader
  p_version :: "byte list"
  p_filter :: "filter option"
  state_skip :: bool
  state_compressed :: bool
  state_memory :: uint64
  strategy_running :: int
  strategy_global :: int
  p_sync :: bool
  p_sizeint :: uint64

definition lift_read :: "(MemReader \<Rightarrow> error + ('a \<times> MemReader)) \<Rightarrow> Parser
    \<Rightarrow> error + ('a \<times> Parser)" where
  "lift_read f p = bindE (f (p_Reader p)) (\<lambda>(x, r). Inr (x, p\<lparr>p_Reader := r\<rparr>))"

definition p_Discard :: "int \<Rightarrow> Parser \<Rightarrow> Parser" where
  "p_Discard n p = p\<lparr>p_Reader := Discard n (p_Reader p)\<rparr>"

definition setStrategy :: "int \<Rightarrow> Parser \<Rightarrow> Parser" where
  "setStrategy strategy p = p\<lparr>strategy_global := strategy, strategy_running := strategy\<rparr>"

definition clearstate :: "Parser \<Rightarrow> Parser" where
  "clearstate p =
     p\<lparr>state_memory := 0, state_skip := False, state_compressed := False,
       strategy_running := strategy_global p, p_sizeint := 8\<rparr>"

definition skipStage :: "int list \<Rightarrow> Parser \<Rightarrow> bool \<times> Parser" where
  "skipStage strategies p =
     (let hit = list_ex (\<lambda>strategy. strategy_running p AND strategy \<noteq> 0) strategies
      in (hit, p\<lparr>state_skip := hit\<rparr>))"

definition getMemory :: "Parser \<Rightarrow> uint64 \<times> Parser" where
  "getMemory p = (state_memory p, p\<lparr>state_memory := 0\<rparr>)"

subsection \<open>Lengths and strings\<close>

definition readLength :: "bool \<Rightarrow> Parser \<Rightarrow> error + ((int \<times> bool) \<times> Parser)" where
  "readLength withEncoding p =
     bindE (lift_read ReadByte p) (\<lambda>(first, p1).
       if first = 0x80 then bindE (lift_read big32 p1) (\<lambda>(i32, p2). Inr ((i32, False), p2))
       else if first = 0x81
       then bindE (lift_read big64 p1) (\<lambda>(i64, p2). Inr ((i64, False), p2))
       else
         let t = drop_bit 6 first
         in if t = 0 then Inr ((uint (first AND 0x3f), False), p1)
            else if t = 1
            then bindE (lift_read ReadByte p1) (\<lambda>(next, p2).
                   Inr ((uint next OR push_bit 8 (uint (first AND 0x3f)), False), p2))
            else if t = 3
            then (if \<not> withEncoding then Inl ErrInvalidLengthEncoding
                  else Inr ((uint (first AND 0x3f), True), p1))
            else Inl ErrInvalidLengthEncoding)"

definition readCompressed :: "bool \<Rightarrow> Parser
    \<Rightarrow> error + ((byte list option \<times> int) \<times> Parser)" where
  "readCompressed memory p =
     bindE (readLength False p) (\<lambda>((clen, _), p1).
     bindE (readLength False p1) (\<lambda>((ulen, _), p2).
     bindE (if memory
            then bindE (alloc ulen) (\<lambda>a. Inr (p2\<lparr>state_memory := state_memory p2 + a\<rparr>))
            else Inr p2) (\<lambda>p3.
       if state_skip p3 then Inr ((None, ulen), p_Discard clen p3)
       else bindE (lift_read (ReadBytes clen) p3) (\<lambda>(buf, p4).
              Inr ((Some buf, ulen), p4\<lparr>state_compressed := True\<rparr>)))))"

text \<open>
  The end of the three integer cases of \<open>readRawBytes\<close>: the decimal string \<open>bs\<close> is
  returned, or \<open>nil\<close> with its length when the value is skipped.
\<close>

definition raw_result :: "byte list \<Rightarrow> Parser \<Rightarrow> error + ((byte list option \<times> int) \<times> Parser)" where
  "raw_result bs p =
     (if state_skip p then Inr ((None, int (length bs)), p)
      else Inr ((Some bs, int (length bs)), p))"

definition add_memory :: "uint64 \<Rightarrow> Parser \<Rightarrow> Parser" where
  "add_memory n p = p\<lparr>state_memory := state_memory p + n\<rparr>"

definition readRawBytes :: "bool \<Rightarrow> Parser \<Rightarrow> error + ((byte list option \<times> int) \<times> Parser)" where
  "readRawBytes memory p =
     bindE (readLength True p) (\<lambda>((len, encoded), p1).
       if \<not> encoded
       then bindE (lift_read (ReadBytes len) p1) (\<lambda>(bs, p2).
            bindE (if memory
                   then (if len \<le> 32 \<and> isInt bs then Inr (p2\<lparr>state_memory := p_sizeint p2\<rparr>)
                         else bindE (alloc len) (\<lambda>a. Inr (p2\<lparr>state_memory := a\<rparr>)))
                   else Inr p2) (\<lambda>p3.
              if state_skip p3 then Inr ((None, len), p3) else Inr ((Some bs, len), p3)))
       else if len = 3 then readCompressed memory p1
       else if len = 2
       then bindE (lift_read little32 p1) (\<lambda>(i32, p2).
              raw_result (Itoa i32) (add_memory 8 p2))
       else if len = 1
       then bindE (lift_read little16 p1) (\<lambda>(i16, p2).
              raw_result (Itoa i16) (if i16 < 0 \<or> i16 \<ge> 10000 then add_memory 8 p2 else p2))
       else if len = 0
       then bindE (lift_read ReadByte p1) (\<lambda>(b, p2).
              raw_result (Itoa (sint b)) (if sint b < 0 then add_memory 8 p2 else p2))
       else Inl ErrInvalidLengthEncoding)"

definition readRawString :: "bool \<Rightarrow> Parser \<Rightarrow> error + (byte list \<times> Parser)" where
  "readRawString memory p =
     bindE (readRawBytes memory p) (\<lambda>((b, len), p1).
       case b of
         None \<Rightarrow> Inr ([], p1)
       | Some bs \<Rightarrow>
           if state_compressed p1
           then bindE (readLZF bs (int (length bs)) len) (\<lambda>b'.
                  Inr (or_nil b', p1\<lparr>state_compressed := False\<rparr>))
           else Inr (bs, p1))"

definition readValue :: "bool \<Rightarrow> Parser \<Rightarrow> error + (rvalue \<times> Parser)" where
  "readValue memory p =
     bindE (readRawBytes memory p) (\<lambda>((b, len), p1).
       let c = state_compressed p1;
           (m, p2) = getMemory (p1\<lparr>state_compressed := False\<rparr>)
       in Inr (newValue c len m b, p2))"

text \<open>
  \<open>readDouble\<close>. For \<open>SortedSet2\<close> the score is the eight bytes read as the bits of a
  double (\<open>binary.Read\<close>). Otherwise a length byte, and for a length below 253 the call
  \<open>fmt.Sscanf(str, "%lg", &f)\<close> on a variable \<open>f\<close> that starts at 0; the error of the scan
  is dropped. \<open>Sscanf\<close> is the argument: \<open>Sscanf str\<close> is the value the scan stores, \<open>None\<close>
  when it stores none.
\<close>

definition readDouble :: "(byte list \<Rightarrow> float64 option) \<Rightarrow> byte \<Rightarrow> Parser
    \<Rightarrow> error + (float64 \<times> Parser)" where
  "readDouble Sscanf encoding p =
     (if encoding = EncodingSortedSet2
      then (if state_skip p then Inr (0, p_Discard 8 p)
            else bindE (lift_read (ReadBytes 8) p) (\<lambda>(bs, p1).
                   Inr (word_of_int (le_uint bs), p1)))
      else bindE (lift_read ReadByte p) (\<lambda>(b, p1).
             if b = 253 then Inr (NaN, p1)
             else if b = 254 then Inr (Inf_pos, p1)
             else if b = 255 then Inr (Inf_neg, p1)
             else if state_skip p1 then Inr (0, p_Discard (uint b) p1)
             else bindE (lift_read (readString (uint b)) p1) (\<lambda>(str, p2).
                    Inr ((case Sscanf str of None \<Rightarrow> 0 | Some f \<Rightarrow> f), p2))))"

definition readDoubleValue :: "(byte list \<Rightarrow> float64 option) \<Rightarrow> byte \<Rightarrow> Parser
    \<Rightarrow> error + (rvalue \<times> Parser)" where
  "readDoubleValue Sscanf encoding p =
     bindE (readDouble Sscanf encoding p) (\<lambda>(f, p1). Inr (newDoubleValue f, p1))"

subsection \<open>The loop of \<open>Parser.Parse\<close>\<close>

text \<open>
  The variables of the loop: the parser, the local \<open>exp\<close>, the database number held by
  \<open>currentKey\<close> and \<open>currentDB\<close>, \<open>defaultStrategy\<close>, and the events so far.
\<close>

record Parse_vars =
  pv_p :: Parser
  pv_exp :: int
  pv_DB :: int
  pv_defaultStrategy :: int
  pv_trace :: "event list"

text \<open>
  The helpers \<open>p.database\<close>, \<open>p.typ\<close> and \<open>p.key\<close>: the filter is asked unless it is \<open>nil\<close>
  or the skip flag is set. \<open>DB.Skip\<close> sets the global and the running strategy, \<open>Type.Skip\<close>
  and \<open>Key.Skip\<close> the running one.
\<close>

definition ask :: "question \<Rightarrow> Parse_vars \<Rightarrow> bool \<times> Parse_vars" where
  "ask q v =
     (case p_filter (pv_p v) of
        None \<Rightarrow> (False, v)
      | Some f \<Rightarrow>
          if state_skip (pv_p v) then (False, v)
          else
            let (abort, sk) = f (pv_trace v) q;
                p' = (case sk of
                        None \<Rightarrow> pv_p v
                      | Some strategy \<Rightarrow>
                          (case q of
                             AskDatabase _ \<Rightarrow> setStrategy strategy (pv_p v)
                           | _ \<Rightarrow> (pv_p v)\<lparr>strategy_running := strategy\<rparr>))
            in (abort, v\<lparr>pv_p := p', pv_trace := pv_trace v @ [Called q abort sk]\<rparr>))"

definition p_database :: "int \<Rightarrow> Parse_vars \<Rightarrow> bool \<times> Parse_vars" where
  "p_database num v = ask (AskDatabase num) v"

definition p_typ :: "byte \<Rightarrow> Parse_vars \<Rightarrow> bool \<times> Parse_vars" where
  "p_typ encoding v = ask (AskType encoding) v"

definition p_key :: "Key \<Rightarrow> Parse_vars \<Rightarrow> bool \<times> Parse_vars" where
  "p_key k v = ask (AskKey k) v"

text \<open>
  \<open>filterRedisType\<close>: the work item reaches the \<open>select\<close> that sends it to the workers
  unless the filter is \<open>nil\<close> or \<open>SkipAll\<close> is running.
\<close>

definition filterRedisType :: "Key \<Rightarrow> rvalue list \<Rightarrow> Parse_vars \<Rightarrow> Parse_vars" where
  "filterRedisType k vals v =
     (let p1 = snd (skipStage [SkipAll] (pv_p v))
      in if p_filter p1 = None \<or> state_skip p1 then v\<lparr>pv_p := p1\<rparr>
         else v\<lparr>pv_p := p1,
                pv_trace := pv_trace v @ [Submitted \<lparr>rt_key = k, rt_values = vals\<rparr>]\<rparr>)"

text \<open>
  The value readers. \<open>make([]*value, size)\<close> panics on a negative size; the loops fill
  the slice in order.
\<close>

definition make_count :: "int \<Rightarrow> error + nat" where
  "make_count sz = (if sz < 0 then Inl RuntimePanic else Inr (nat sz))"

fun readValues :: "bool \<Rightarrow> nat \<Rightarrow> Parser \<Rightarrow> error + (rvalue list \<times> Parser)" where
  "readValues memory 0 p = Inr ([], p)"
| "readValues memory (Suc n) p =
     bindE (readValue memory p) (\<lambda>(x, p1).
     bindE (readValues memory n p1) (\<lambda>(xs, p2). Inr (x # xs, p2)))"

fun readPairs :: "(byte list \<Rightarrow> float64 option) \<Rightarrow> byte \<Rightarrow> nat \<Rightarrow> Parser
    \<Rightarrow> error + (rvalue list \<times> Parser)" where
  "readPairs Sscanf b 0 p = Inr ([], p)"
| "readPairs Sscanf b (Suc n) p =
     bindE (readValue True p) (\<lambda>(x, p1).
     bindE (readDoubleValue Sscanf b p1) (\<lambda>(y, p2).
     bindE (readPairs Sscanf b n p2) (\<lambda>(xs, p3). Inr (x # y # xs, p3))))"

text \<open>
  The switch on the encoding after the key: the values of the record, or \<open>None\<close> for an
  encoding the parser does not know (it logs and returns \<open>nil\<close>).
\<close>

definition read_record_values :: "(byte list \<Rightarrow> float64 option) \<Rightarrow> byte \<Rightarrow> Parser
    \<Rightarrow> error + (rvalue list option \<times> Parser)" where
  "read_record_values Sscanf b p =
     (if b = EncodingString
      then bindE (readValue True p) (\<lambda>(x, p1). Inr (Some [x], p1))
      else if b = EncodingSet \<or> b = EncodingList
      then bindE (readLength False p) (\<lambda>((sz, _), p1).
             let p2 = (if b = EncodingList then p1\<lparr>p_sizeint := 4\<rparr> else p1)
             in bindE (make_count sz) (\<lambda>n.
                bindE (readValues True n p2) (\<lambda>(xs, p3). Inr (Some xs, p3))))
      else if b = EncodingHash
      then bindE (readLength False p) (\<lambda>((sz, _), p1).
           bindE (make_count (sz * 2)) (\<lambda>n.
           bindE (readValues True n p1) (\<lambda>(xs, p2). Inr (Some xs, p2))))
      else if b = EncodingSortedSet \<or> b = EncodingSortedSet2
      then bindE (readLength False p) (\<lambda>((sz, _), p1).
           bindE (make_count (sz * 2)) (\<lambda>n.
           bindE (readPairs Sscanf b (nat sz) p1) (\<lambda>(xs, p2). Inr (Some xs, p2))))
      else if b = EncodingZipmap \<or> b = EncodingZiplist \<or> b = EncodingHashZip
              \<or> b = EncodingSortedSetZip \<or> b = EncodingIntset
      then bindE (readValue False p) (\<lambda>(x, p1). Inr (Some [x], p1))
      else if b = EncodingQuicklist
      then bindE (readLength False p) (\<lambda>((sz, _), p1).
           bindE (make_count sz) (\<lambda>n.
           bindE (readValues False n p1) (\<lambda>(xs, p2). Inr (Some xs, p2))))
      else Inr (None, p))"

text \<open>
  One round of the loop either goes on (\<open>Next\<close>) or makes \<open>Parse\<close> return (\<open>Done\<close>, with
  \<open>Inr ()\<close> for \<open>nil\<close>). After an error the variables are those before the failing read.
\<close>

datatype outcome = Next Parse_vars | Done "error + unit" Parse_vars

text \<open>Lines 584 to 592: the key is read and \<open>currentKey\<close> is filled.\<close>

definition read_key :: "byte \<Rightarrow> Parse_vars \<Rightarrow> error + (Key \<times> Parse_vars)" where
  "read_key b v =
     (let p1 = snd (skipStage [SkipAll] (pv_p v))
      in bindE (readRawString True p1) (\<lambda>(k, p2).
           let (m, p3) = getMemory p2
           in Inr (\<lparr>key_Encoding = b, key_DB = pv_DB v, key_Expiry = pv_exp v,
                    key_Key = k, key_memory = m + top_overhead (pv_exp v)\<rparr>,
                   v\<lparr>pv_p := p3\<rparr>)))"

definition round_record :: "(byte list \<Rightarrow> float64 option) \<Rightarrow> byte \<Rightarrow> Parse_vars \<Rightarrow> outcome" where
  "round_record Sscanf b v0 =
     (let (abort, v1) = p_typ b (v0\<lparr>pv_p := snd (skipStage [SkipAll] (pv_p v0))\<rparr>)
      in if abort then Done (Inr ()) v1
         else
           case read_key b v1 of
             Inl e \<Rightarrow> Done (Inl e) v1
           | Inr (currentKey, v2) \<Rightarrow>
               let (abort, v3) = p_key currentKey v2
               in if abort then Done (Inr ()) v3
                  else
                    let v4 = v3\<lparr>pv_exp := - 1,
                               pv_p := snd (skipStage [SkipValue, SkipAll] (pv_p v3))\<rparr>
                    in case read_record_values Sscanf b (pv_p v4) of
                         Inl e \<Rightarrow> Done (Inl e) v4
                       | Inr (None, p5) \<Rightarrow> Done (Inr ()) (v4\<lparr>pv_p := p5\<rparr>)
                       | Inr (Some vals, p5) \<Rightarrow>
                           Next (filterRedisType currentKey vals (v4\<lparr>pv_p := p5\<rparr>)))"

definition round_DB :: "Parse_vars \<Rightarrow> outcome" where
  "round_DB v =
     (case readLength False (setStrategy (pv_defaultStrategy v) (pv_p v)) of
        Inl e \<Rightarrow> Done (Inl e) v
      | Inr ((num, _), p1) \<Rightarrow>
          let (abort, v1) = p_database num (v\<lparr>pv_p := p1, pv_DB := num\<rparr>)
          in if abort then Done (Inr ()) v1 else Next v1)"

text \<open>The lines that print the \<open>AUX\<close> and \<open>RESIZE\<close> records are left out.\<close>

definition round_AUX :: "Parse_vars \<Rightarrow> outcome" where
  "round_AUX v =
     (case readRawString False (snd (skipStage [SkipMeta, SkipAll] (pv_p v))) of
        Inl e \<Rightarrow> Done (Inl e) v
      | Inr (k, p1) \<Rightarrow>
          (case readRawString False p1 of
             Inl e \<Rightarrow> Done (Inl e) v
           | Inr (x, p2) \<Rightarrow> Next (v\<lparr>pv_p := snd (skipStage [SkipMeta, SkipAll] p2)\<rparr>)))"

definition round_Resize :: "Parse_vars \<Rightarrow> outcome" where
  "round_Resize v =
     (case readLength False (pv_p v) of
        Inl e \<Rightarrow> Done (Inl e) v
      | Inr (dbSize, p1) \<Rightarrow>
          (case readLength False p1 of
             Inl e \<Rightarrow> Done (Inl e) v
           | Inr (expiresSize, p2) \<Rightarrow>
               Next (v\<lparr>pv_p := snd (skipStage [SkipMeta, SkipAll] p2)\<rparr>)))"

definition round_Exp :: "int \<Rightarrow> (MemReader \<Rightarrow> error + (int \<times> MemReader)) \<Rightarrow> Parse_vars
    \<Rightarrow> outcome" where
  "round_Exp width rd v =
     (let (hit, p1) = skipStage [SkipExpiry, SkipAll] (pv_p v)
      in if hit then Next (v\<lparr>pv_p := p_Discard width p1\<rparr>)
         else case lift_read rd p1 of
                Inl e \<Rightarrow> Done (Inl e) v
              | Inr (x, p2) \<Rightarrow> Next (v\<lparr>pv_p := p2, pv_exp := x\<rparr>))"

text \<open>
  A round: the poll of the error slot of the workers (\<open>polled\<close> is what the receive
  yields, \<open>None\<close> when the slot is empty), the token byte, its case, and \<open>clearstate\<close>.
\<close>

definition Parse_round :: "(byte list \<Rightarrow> float64 option) \<Rightarrow> error option \<Rightarrow> Parse_vars
    \<Rightarrow> outcome" where
  "Parse_round Sscanf polled v =
     (case polled of
        Some e \<Rightarrow> Done (Inl e) v
      | None \<Rightarrow>
          (case lift_read ReadByte (pv_p v) of
             Inl e \<Rightarrow> Done (Inl e) v
           | Inr (b, p1) \<Rightarrow>
               (case (let v1 = v\<lparr>pv_p := p1\<rparr>
                      in if b = tokenDB then round_DB v1
                         else if b = tokenAUX then round_AUX v1
                         else if b = tokenResize then round_Resize v1
                         else if b = tokenExpMSec then round_Exp 8 little64 v1
                         else if b = tokenExpSec then round_Exp 4 little32 v1
                         else if b = tokenEOF then Done (Inr ()) v1
                         else round_record Sscanf b v1) of
                  Next v2 \<Rightarrow> Next (v2\<lparr>pv_p := clearstate (pv_p v2)\<rparr>)
                | Done res v2 \<Rightarrow> Done res v2)))"

text \<open>
  The loop may run forever (a negative compressed length moves the cursor of a
  \<open>MemReader\<close> backwards), so it is given fuel: \<open>None\<close> when the rounds allowed do not
  reach a \<open>return\<close>. \<open>polled n\<close> is the poll of round \<open>n\<close>.
\<close>

fun Parse_loop :: "(byte list \<Rightarrow> float64 option) \<Rightarrow> (nat \<Rightarrow> error option) \<Rightarrow> nat \<Rightarrow> nat
    \<Rightarrow> Parse_vars \<Rightarrow> (error + unit) option \<times> Parse_vars" where
  "Parse_loop Sscanf polled 0 n v = (None, v)"
| "Parse_loop Sscanf polled (Suc fuel) n v =
     (case Parse_round Sscanf (polled n) v of
        Done res v' \<Rightarrow> (Some res, v')
      | Next v' \<Rightarrow> Parse_loop Sscanf polled fuel (Suc n) v')"

subsection \<open>The entry point \<open>Parse\<close>\<close>

text \<open>
  \<open>strconv.Atoi\<close> on a string shorter than 19 bytes (the version has four): an optional
  sign and at least one digit, all of them digits.
\<close>

fun atoi_loop :: "byte list \<Rightarrow> int \<Rightarrow> int option" where
  "atoi_loop [] n = Some n"
| "atoi_loop (ch # s) n =
     (if ch - 48 > 9 then None else atoi_loop s (n * 10 + uint (ch - 48)))"

definition Atoi :: "byte list \<Rightarrow> error + int" where
  "Atoi s0 =
     (case s0 of
        [] \<Rightarrow> Inl ErrSyntax
      | c # cs \<Rightarrow>
          let s = (if c = 45 \<or> c = 43 then cs else s0)
          in if s = [] then Inl ErrSyntax
             else case atoi_loop s 0 of
                    None \<Rightarrow> Inl ErrSyntax
                  | Some n \<Rightarrow> Inr (if c = 45 then - n else n))"

definition REDIS :: "byte list" where
  "REDIS = [0x52, 0x45, 0x44, 0x49, 0x53]"

datatype ParseOption = WithFilter filter | WithStrategy int | EnableSync

definition apply_option :: "Parser \<Rightarrow> ParseOption \<Rightarrow> Parser" where
  "apply_option p opt =
     (case opt of
        WithFilter f \<Rightarrow> p\<lparr>p_filter := Some f\<rparr>
      | WithStrategy strategy \<Rightarrow> setStrategy strategy p
      | EnableSync \<Rightarrow> p\<lparr>p_sync := True\<rparr>)"

definition new_Parser :: "MemReader \<Rightarrow> Parser" where
  "new_Parser r =
     \<lparr>p_Reader = r, p_version = [], p_filter = None, state_skip = False,
      state_compressed = False, state_memory = 0, strategy_running = 0,
      strategy_global = 0, p_sync = False, p_sizeint = 8\<rparr>"

text \<open>The gate of \<open>Parse\<close>: magic and version.\<close>

definition Parse_header :: "Parser \<Rightarrow> error + Parser" where
  "Parse_header p =
     bindE (lift_read (readString 5) p) (\<lambda>(magic, p1).
       if magic \<noteq> REDIS then Inl ErrInvalidRDB
       else bindE (lift_read (readString 4) p1) (\<lambda>(version, p2).
            bindE (Atoi version) (\<lambda>n.
              if n < 1 \<or> n > 8 then Inl ErrUnsupportedRDB
              else Inr (p2\<lparr>p_version := version\<rparr>))))"

definition start_vars :: "Parser \<Rightarrow> Parse_vars" where
  "start_vars p =
     \<lparr>pv_p = p, pv_exp = - 1, pv_DB = 0, pv_defaultStrategy = strategy_global p,
      pv_trace = []\<rparr>"

definition Parse :: "(byte list \<Rightarrow> float64 option) \<Rightarrow> (nat \<Rightarrow> error option) \<Rightarrow> nat
    \<Rightarrow> byte list \<Rightarrow> ParseOption list \<Rightarrow> (error + unit) option \<times> event list" where
  "Parse Sscanf polled fuel file opts =
     (case Parse_header (new_Parser (NewReader file)) of
        Inl e \<Rightarrow> (Some (Inl e), [])
      | Inr p \<Rightarrow>
          (let (res, v) = Parse_loop Sscanf polled fuel 0 (start_vars (foldl apply_option p opts))
           in (res, pv_trace v)))"

section \<open>The claims\<close>

text \<open>
  C3 (defect of the code). The claim: \<open>jemalloc\<close> returns the smallest entry of the table
  that is at least the request, returns the request itself beyond the largest entry, and
  never faults. \<open>sort.Search\<close> answers the length of the table when no entry is large
  enough, and the guard \<open>i > len(allocSpec)\<close> lets that index through: for the request \<open>-1\<close>
  (which \<open>uint64\<close> turns into \<open>2^64 - 1\<close>, above every entry) the search ends at index 239
  and \<open>allocSpec[239]\<close> is out of range, a panic instead of the request.
\<close>

theorem jemalloc_beyond_table_panics:
  "Search (length allocSpec) (\<lambda>i. allocSpec ! i \<ge> uint64_of_int (- 1)) = length allocSpec
   \<and> jemalloc (- 1) = Inl RuntimePanic"
  by code_simp

text \<open>
  C7 (defect of the code). The claim: a malformed compressed input makes \<open>readLZF\<close> return
  \<open>ErrInvalidCompressedData\<close>, with no access out of bounds. For the one-byte input \<open>0x20\<close>
  (a back-reference whose offset byte is missing) the code evaluates \<open>buf[1]\<close> on a
  buffer of length 1: the bounds check of Go panics, no error value is returned.
\<close>

theorem readLZF_truncated_backref_panics:
  "readLZF [0x20] 1 1 = Inl RuntimePanic"
  by (simp add: readLZF_def bindE_def lzf_round_def lzf_ref_def)

text \<open>Unfolding of \<open>replicate\<close> at a numeral, for the evaluation of concrete inputs.\<close>

lemma replicate_numeral_unfold:
  "replicate (numeral n) x = x # replicate (pred_numeral n) x"
  by (simp add: numeral_eq_Suc)

subsection \<open>C10: an intset whose header declares an unknown width\<close>

lemma intset_loop_unknown_width:
  "encoding \<noteq> 2 \<Longrightarrow> encoding \<noteq> 4 \<Longrightarrow> encoding \<noteq> 8 \<Longrightarrow>
     intset_loop encoding n r = Inr (replicate n 0)"
  by (induction n) (simp_all add: intset_element_def bindE_def)

lemma little32_header:
  "length w = 4 \<Longrightarrow>
     little32 \<lparr>mr_i = 0, mr_b = w @ rest\<rparr> =
       Inr (as_signed 32 (le_uint w), \<lparr>mr_i = 4, mr_b = w @ rest\<rparr>)"
  by (simp add: little32_def ReadBytes_def bindE_def)

lemma little32_second:
  "length w = 4 \<Longrightarrow> length c = 4 \<Longrightarrow>
     little32 \<lparr>mr_i = 4, mr_b = w @ c @ rest\<rparr> =
       Inr (as_signed 32 (le_uint c), \<lparr>mr_i = 8, mr_b = w @ c @ rest\<rparr>)"
  by (simp add: little32_def ReadBytes_def bindE_def)

text \<open>
  Where the count is not negative when read as a signed 32-bit number, the decoder does
  what the claim says: an element of unknown width reads nothing and is 0, the decoder
  returns that many zeros, and \<open>redisType.set\<close> builds the set \<open>{0}\<close> (the empty set for the
  count 0). The frame is \<open>w @ c @ payload\<close>: four bytes of width, four bytes of count.
\<close>

lemma intset_unknown_width_zeros:
  assumes w: "length w = 4" and c: "length c = 4"
    and width: "as_signed 32 (le_uint w) \<noteq> 2" "as_signed 32 (le_uint w) \<noteq> 4"
               "as_signed 32 (le_uint w) \<noteq> 8"
    and count: "0 \<le> as_signed 32 (le_uint c)"
    and frame: "v_b v = Some (w @ c @ payload)"
    and enc: "key_Encoding k = EncodingIntset"
  shows "intset_element (as_signed 32 (le_uint w)) r = Inr (0, r)
       \<and> readIntset v = Inr (Some (replicate (nat (as_signed 32 (le_uint c))) 0))
       \<and> rt_set \<lparr>rt_key = k, rt_values = [v]\<rparr> =
           Inr \<lparr>set_Key = k,
                set_Values = (if as_signed 32 (le_uint c) = 0 then {} else {EInt 0}),
                set_memory = of_int (v_l v)\<rparr>"
proof -
  have el: "intset_element (as_signed 32 (le_uint w)) r = Inr (0, r)"
    using width by (simp add: intset_element_def)
  have rd: "readIntset v = Inr (Some (replicate (nat (as_signed 32 (le_uint c))) 0))"
    using w c width count frame
    by (simp add: readIntset_def NewReader_def little32_header little32_second bindE_def
        intset_loop_unknown_width)
  have st: "rt_set \<lparr>rt_key = k, rt_values = [v]\<rparr> =
              Inr \<lparr>set_Key = k,
                   set_Values = (if as_signed 32 (le_uint c) = 0 then {} else {EInt 0}),
                   set_memory = of_int (v_l v)\<rparr>"
    using rd enc count
    by (auto simp: rt_set_def first_value_def bindE_def or_nil_def Encoding_defs)
  show ?thesis
    using el rd st by simp
qed

text \<open>
  Where the count is negative when read so (its top bit is set), the decoder panics,
  whatever the width and the payload.
\<close>

lemma intset_negative_count:
  assumes w: "length w = 4" and c: "length c = 4"
    and count: "as_signed 32 (le_uint c) < 0"
    and frame: "v_b v = Some (w @ c @ payload)"
  shows "readIntset v = Inl RuntimePanic"
  using w c count frame
  by (simp add: readIntset_def NewReader_def little32_header little32_second bindE_def)

text \<open>
  C10 (defect of the code). The claim: for every intset frame whose header declares an
  element width other than 2, 4 or 8, the decoder raises no error and returns as many
  zeros as the header counts, so that for a nonzero count the \<open>Set\<close> callback receives the
  set \<open>{0}\<close>. The count is, in the words of the code, a 32-bit unsigned integer, but
  \<open>readIntset\<close> reads it with the signed \<open>little32\<close> and hands it to \<open>make\<close>: for the frame of
  width 3 whose count field is \<open>ff ff ff ff\<close> the length is \<open>-1\<close> and \<open>make([]int, -1)\<close> panics;
  no list is returned and no callback is made.
\<close>

theorem intset_negative_count_panics:
  "readIntset \<lparr>v_c = False, v_l = 8, v_m = 0, v_f = 0,
               v_b = Some [3, 0, 0, 0, 0xff, 0xff, 0xff, 0xff]\<rparr> = Inl RuntimePanic
   \<and> filterWorker_item (\<lambda>s. None) (\<lambda>j. 1) new_worker
        \<lparr>rt_key = \<lparr>key_Encoding = 11, key_DB = 0, key_Expiry = - 1, key_Key = [0x73],
                    key_memory = 48\<rparr>,
         rt_values = [\<lparr>v_c = False, v_l = 8, v_m = 0, v_f = 0,
                       v_b = Some [3, 0, 0, 0, 0xff, 0xff, 0xff, 0xff]\<rparr>]\<rparr>
       = Inl RuntimePanic"
  by (simp add: readIntset_def NewReader_def little32_def ReadBytes_def bindE_def
      as_signed_def filterWorker_item_def decompress_value_def Encoding2Type_def
      Encoding_defs rt_set_def first_value_def)

subsection \<open>C2: a hash stored as a zipmap\<close>

definition zipmap_key :: Key where
  "zipmap_key =
     \<lparr>key_Encoding = 9, key_DB = 0, key_Expiry = - 1, key_Key = [0x68], key_memory = 48\<rparr>"

text \<open>
  The zipmap \<open>{foo: bar}\<close>: \<open>zmlen = 1\<close>, the key with its length, the value with its length
  and no free byte, the end byte.
\<close>

definition zipmap_foo_bar :: rvalue where
  "zipmap_foo_bar =
     \<lparr>v_c = False, v_l = 11, v_m = 0, v_f = 0,
      v_b = Some [0x01, 0x03, 0x66, 0x6f, 0x6f, 0x03, 0x00, 0x62, 0x61, 0x72, 0xff]\<rparr>"

text \<open>
  The zipmap \<open>{k: hi}\<close> whose value is followed by one free byte (\<open>0x58\<close>).
\<close>

definition zipmap_free_byte :: rvalue where
  "zipmap_free_byte =
     \<lparr>v_c = False, v_l = 9, v_m = 0, v_f = 0,
      v_b = Some [0x01, 0x01, 0x6b, 0x02, 0x01, 0x68, 0x69, 0x58, 0xff]\<rparr>"

text \<open>
  C2 (defect of the code). The claim: the pairs delivered to the \<open>Hash\<close> callback for a
  zipmap are exactly the entries of the frame. \<open>readZipmap\<close> makes its result slice with
  \<open>make([]string, zmlen*2)\<close>, a slice of that length instead of that capacity, and appends
  the entries after the empty strings; \<open>redisType.hash\<close> pairs them up, so the callback
  gets the pair of two empty strings on top of \<open>foo: bar\<close>. And \<open>readZipmapEntry\<close> skips the
  free bytes of a value before the value instead of after it: the value \<open>hi\<close> followed by
  one free byte is read as \<open>i\<close> and that free byte.
\<close>

theorem zipmap_extra_pair_and_free_bytes:
  "rt_hash \<lparr>rt_key = zipmap_key, rt_values = [zipmap_foo_bar]\<rparr> =
     Inr \<lparr>hash_Key = zipmap_key,
          hash_Values = [[] \<mapsto> [], [0x66, 0x6f, 0x6f] \<mapsto> [0x62, 0x61, 0x72]],
          hash_memory = 11\<rparr>
   \<and> readZipmap zipmap_free_byte = Inr (Some [[], [], [0x6b], [0x69, 0x58]])"
  by (simp add: rt_hash_def zipmap_key_def zipmap_foo_bar_def zipmap_free_byte_def
      Encoding_defs first_value_def bindE_def readZipmap_def NewReader_def ReadByte_def
      readZipmapEntry_def readString_def ReadBytes_def zipmap_free_def Discard_def
      or_nil_def replicate_numeral_unfold)

subsection \<open>C8: the gate of magic and version\<close>

lemma Parse_header_gate:
  "Parse_header (new_Parser (NewReader file)) =
     (if length file < 5 then Inl ErrUnexpectedEOF
      else if take 5 file \<noteq> REDIS then Inl ErrInvalidRDB
      else if length file < 9 then Inl ErrUnexpectedEOF
      else case Atoi (take 4 (drop 5 file)) of
             Inl e \<Rightarrow> Inl ErrSyntax
           | Inr n \<Rightarrow>
               if n < 1 \<or> 8 < n then Inl ErrUnsupportedRDB
               else Inr ((new_Parser \<lparr>mr_i = 9, mr_b = file\<rparr>)
                          \<lparr>p_version := take 4 (drop 5 file)\<rparr>))"
  by (auto simp: Parse_header_def new_Parser_def NewReader_def lift_read_def readString_def
      ReadBytes_def bindE_def Atoi_def Let_def split: sum.splits list.splits option.splits)

text \<open>
  C8 (corrected). The claim: a parse either begins with \<open>REDIS\<close> and four decimal digits
  of value 1 to 8, or fails before any frame is read, with \<open>InvalidSnapshot\<close> for a wrong
  magic and \<open>UnsupportedVersion\<close> for a version outside 1 to 8 or not a decimal number.

  As amended: \<open>Parse\<close> fails before any frame is read (no event, whatever the fuel of the
  loop) with the reader's \<open>ErrUnexpectedEOF\<close> when the file has fewer than the five or
  nine bytes, with \<open>ErrInvalidRDB\<close> when the first five are not \<open>REDIS\<close>, with the syntax
  error of \<open>strconv.Atoi\<close> when the four version bytes are not a number, and with
  \<open>ErrUnsupportedRDB\<close> when the number is outside 1 to 8; otherwise the loop starts at
  byte 9.
\<close>

theorem Parse_gate:
  "Parse Sscanf polled fuel file opts =
     (if length file < 5 then (Some (Inl ErrUnexpectedEOF), [])
      else if take 5 file \<noteq> REDIS then (Some (Inl ErrInvalidRDB), [])
      else if length file < 9 then (Some (Inl ErrUnexpectedEOF), [])
      else case Atoi (take 4 (drop 5 file)) of
             Inl e \<Rightarrow> (Some (Inl ErrSyntax), [])
           | Inr n \<Rightarrow>
               if n < 1 \<or> 8 < n then (Some (Inl ErrUnsupportedRDB), [])
               else (let (res, v) =
                           Parse_loop Sscanf polled fuel 0
                             (start_vars
                                (foldl apply_option
                                   ((new_Parser \<lparr>mr_i = 9, mr_b = file\<rparr>)
                                      \<lparr>p_version := take 4 (drop 5 file)\<rparr>) opts))
                     in (res, pv_trace v)))"
  by (simp add: Parse_def Parse_header_gate split: sum.splits)

text \<open>
  The claim as stated fails on the version \<open>abcd\<close>, where the error is the syntax error
  of \<open>Atoi\<close>, not \<open>ErrUnsupportedRDB\<close>; and the version \<open>+008\<close>, which is not four decimal
  digits, passes the gate (here the parse reaches the \<open>EOF\<close> token and returns \<open>nil\<close>).
\<close>

theorem version_gate_counterexample:
  "Parse (\<lambda>s. None) (\<lambda>n. None) 1 (REDIS @ [0x61, 0x62, 0x63, 0x64, 0xFF]) []
     = (Some (Inl ErrSyntax), [])
   \<and> Parse (\<lambda>s. None) (\<lambda>n. None) 1 (REDIS @ [0x2B, 0x30, 0x30, 0x38, 0xFF]) []
     = (Some (Inr ()), [])"
  unfolding Parse_def Parse_header_gate
  by (simp add: REDIS_def Atoi_def Parse_round_def lift_read_def ReadByte_def bindE_def
      new_Parser_def start_vars_def token_defs)

subsection \<open>C6: strings in the 8-, 16- and 32-bit integer encodings\<close>

text \<open>What the reads of the parser leave alone: everything but the reader.\<close>

definition same_but_reader :: "Parser \<Rightarrow> Parser \<Rightarrow> bool" where
  "same_but_reader p p' =
     (state_memory p' = state_memory p \<and> state_skip p' = state_skip p
      \<and> state_compressed p' = state_compressed p \<and> p_sizeint p' = p_sizeint p
      \<and> p_filter p' = p_filter p \<and> strategy_running p' = strategy_running p
      \<and> strategy_global p' = strategy_global p)"

lemma lift_read_frame:
  "lift_read f p = Inr (x, p') \<Longrightarrow> same_but_reader p p'"
  by (auto simp: lift_read_def bindE_def same_but_reader_def split: sum.splits)

lemma readLength_frame:
  "readLength withEncoding p = Inr (x, p') \<Longrightarrow> same_but_reader p p'"
  by (auto simp: readLength_def lift_read_def bindE_def Let_def same_but_reader_def
      split: sum.splits if_splits)

text \<open>
  The integer behind the encoding tag: tag 0 is one byte read as \<open>int8\<close>, tag 1 two
  bytes little-endian as \<open>int16\<close>, tag 2 four bytes little-endian as \<open>int32\<close>.
\<close>

definition read_special_int :: "int \<Rightarrow> Parser \<Rightarrow> error + (int \<times> Parser)" where
  "read_special_int tag p =
     (if tag = 2 then lift_read little32 p
      else if tag = 1 then lift_read little16 p
      else bindE (lift_read ReadByte p) (\<lambda>(b, p'). Inr (sint b, p')))"

text \<open>
  The cost the code accounts: 8 for every 32-bit integer; for a 16-bit integer 8 outside
  0 to 9999 and nothing inside; for an 8-bit integer 8 when negative and nothing
  otherwise.
\<close>

definition special_int_cost :: "int \<Rightarrow> int \<Rightarrow> uint64" where
  "special_int_cost tag x =
     (if tag = 2 then 8
      else if tag = 1 then (if x < 0 \<or> x \<ge> 10000 then 8 else 0)
      else (if x < 0 then 8 else 0))"

text \<open>
  The cost in the words of the claim: the byte cost of the fixed-width integer (one, two
  or four bytes), except eight bytes for a negative 8-bit integer and for a 16-bit
  integer outside 0 to 9999.
\<close>

definition claimed_special_int_cost :: "int \<Rightarrow> int \<Rightarrow> uint64" where
  "claimed_special_int_cost tag x =
     (if tag = 0 \<and> x < 0 then 8
      else if tag = 1 \<and> (x < 0 \<or> x > 9999) then 8
      else if tag = 0 then 1 else if tag = 1 then 2 else 4)"

lemma special_int_read:
  assumes len: "readLength True p = Inr ((tag, True), p1)"
    and tag: "tag = 0 \<or> tag = 1 \<or> tag = 2"
    and rd: "readRawBytes memory p = Inr ((b, l), p')"
  shows "\<exists>x p2. read_special_int tag p1 = Inr (x, p2)
           \<and> state_memory p' = state_memory p + special_int_cost tag x
           \<and> l = int (length (Itoa x))
           \<and> b = (if state_skip p then None else Some (Itoa x))"
proof -
  have p1: "same_but_reader p p1"
    using readLength_frame [OF len] .
  have unf: "readRawBytes memory p =
      (if tag = 2
       then bindE (lift_read little32 p1) (\<lambda>(i32, p2). raw_result (Itoa i32) (add_memory 8 p2))
       else if tag = 1
       then bindE (lift_read little16 p1) (\<lambda>(i16, p2).
              raw_result (Itoa i16) (if i16 < 0 \<or> i16 \<ge> 10000 then add_memory 8 p2 else p2))
       else bindE (lift_read ReadByte p1) (\<lambda>(b, p2).
              raw_result (Itoa (sint b)) (if sint b < 0 then add_memory 8 p2 else p2)))"
    using tag by (auto simp: readRawBytes_def len bindE_def)
  consider "tag = 2" | "tag = 1" | "tag = 0"
    using tag by blast
  then show ?thesis
  proof cases
    case 1
    obtain x p2 where r: "lift_read little32 p1 = Inr (x, p2)"
      using rd unf 1 by (auto simp: bindE_def split: sum.splits)
    have "same_but_reader p1 p2"
      using lift_read_frame [OF r] .
    then show ?thesis
      using rd unf 1 r p1
      by (auto simp: bindE_def read_special_int_def special_int_cost_def raw_result_def
          add_memory_def same_but_reader_def split: if_splits)
  next
    case 2
    obtain x p2 where r: "lift_read little16 p1 = Inr (x, p2)"
      using rd unf 2 by (auto simp: bindE_def split: sum.splits)
    have "same_but_reader p1 p2"
      using lift_read_frame [OF r] .
    then show ?thesis
      using rd unf 2 r p1
      by (auto simp: bindE_def read_special_int_def special_int_cost_def raw_result_def
          add_memory_def same_but_reader_def split: if_splits)
  next
    case 3
    obtain x p2 where r: "lift_read ReadByte p1 = Inr (x, p2)"
      using rd unf 3 by (auto simp: bindE_def split: sum.splits)
    have "same_but_reader p1 p2"
      using lift_read_frame [OF r] .
    then show ?thesis
      using rd unf 3 r p1
      by (auto simp: bindE_def read_special_int_def special_int_cost_def raw_result_def
          add_memory_def same_but_reader_def split: if_splits)
  qed
qed

text \<open>
  C6 (corrected). The claim: a string in the 8-, 16- or 32-bit integer encoding is
  accounted at the byte cost of the fixed-width integer, except that a negative 8-bit
  integer and a 16-bit integer outside 0 to 9999 cost eight bytes.

  As amended: whatever the \<open>memory\<close> flag, the read adds \<open>special_int_cost\<close> to the memory of
  the state: eight bytes for every 32-bit integer, for a 16-bit integer outside 0 to 9999
  and for a negative 8-bit integer, and nothing for the others (the integers the server
  shares). The string returned is the decimal form of the integer, \<open>nil\<close> when skipping.
\<close>

theorem special_int_memory:
  assumes len: "readLength True p = Inr ((tag, True), p1)"
    and tag: "tag = 0 \<or> tag = 1 \<or> tag = 2"
    and rd: "readRawBytes memory p = Inr ((b, l), p')"
  shows "\<exists>x p2. read_special_int tag p1 = Inr (x, p2)
           \<and> state_memory p' = state_memory p + special_int_cost tag x
           \<and> l = int (length (Itoa x))
           \<and> b = (if state_skip p then None else Some (Itoa x))"
  using len tag rd by (rule special_int_read)

theorem special_int_memory_witness:
  "readLength True (new_Parser (NewReader [0xC1, 0x10, 0x27])) =
     Inr ((1, True), new_Parser \<lparr>mr_i = 1, mr_b = [0xC1, 0x10, 0x27]\<rparr>)
   \<and> readRawBytes True (new_Parser (NewReader [0xC1, 0x10, 0x27])) =
     Inr ((Some [0x31, 0x30, 0x30, 0x30, 0x30], 5),
          (new_Parser \<lparr>mr_i = 3, mr_b = [0xC1, 0x10, 0x27]\<rparr>)\<lparr>state_memory := 8\<rparr>)
   \<and> (\<exists>x p2. read_special_int 1 (new_Parser \<lparr>mr_i = 1, mr_b = [0xC1, 0x10, 0x27]\<rparr>)
                 = Inr (x, p2)
          \<and> (8 :: uint64) = 0 + special_int_cost 1 x
          \<and> (5 :: int) = int (length (Itoa x))
          \<and> Some [0x31, 0x30, 0x30, 0x30, 0x30] = Some (Itoa x))"
proof -
  have len: "readLength True (new_Parser (NewReader [0xC1, 0x10, 0x27])) =
      Inr ((1, True), new_Parser \<lparr>mr_i = 1, mr_b = [0xC1, 0x10, 0x27]\<rparr>)"
    by (simp add: readLength_def new_Parser_def NewReader_def lift_read_def ReadByte_def
        bindE_def)
  have rd: "readRawBytes True (new_Parser (NewReader [0xC1, 0x10, 0x27])) =
      Inr ((Some [0x31, 0x30, 0x30, 0x30, 0x30], 5),
           (new_Parser \<lparr>mr_i = 3, mr_b = [0xC1, 0x10, 0x27]\<rparr>)\<lparr>state_memory := 8\<rparr>)"
    unfolding readRawBytes_def len
    by (simp add: new_Parser_def lift_read_def little16_def ReadBytes_def bindE_def
        as_signed_def raw_result_def add_memory_def Itoa_def)
  show ?thesis
    using special_int_memory [OF len _ rd] len rd
    by (simp add: new_Parser_def)
qed

text \<open>
  The claim as stated fails on the 8-bit integer 5: it is not negative, so the exception
  of the claim does not apply, and it is accounted at nothing, where the byte cost of an
  8-bit integer is one byte.
\<close>

theorem special_int_cost_counterexample:
  "map_sum id (\<lambda>(x, p). (x, state_memory p))
     (readRawBytes True (new_Parser (NewReader [0xC0, 0x05]))) = Inr ((Some [0x35], 1), 0)
   \<and> claimed_special_int_cost 0 5 = 1"
  by (simp add: readRawBytes_def readLength_def new_Parser_def NewReader_def lift_read_def
      ReadByte_def bindE_def raw_result_def Itoa_def claimed_special_int_cost_def)

subsection \<open>C1: the score of a sorted set written as text\<close>

text \<open>
  The three special lengths are what they are called: the exponent bits of \<open>NaN\<close> and of
  the infinities are all set, the fraction of \<open>NaN\<close> is not zero, the fraction of the
  infinities is, and the sign bit tells the two infinities apart.
\<close>

lemma special_scores:
  "drop_bit 52 NaN AND 0x7FF = 0x7FF \<and> take_bit 52 NaN \<noteq> 0
   \<and> Inf_pos = push_bit 52 0x7FF \<and> Inf_neg = push_bit 63 1 + push_bit 52 0x7FF"
  by (simp add: NaN_def Inf_pos_def Inf_neg_def)





subsection \<open>C9: a callback that returns true\<close>
































end
